theory Spec2Isabelle
  imports Main "HOL-Library.AList"
begin

section \<open>Python values, strings and exceptions\<close>

text \<open>
  The module \<open>bcpandas/main.py\<close> holds the credential class \<open>SqlCreds\<close> and the two
  entry points \<open>to_sql\<close> and \<open>read_sql\<close>. A Python string is modelled as a \<open>string\<close>
  whose characters stand for the code points below 256; \<open>None\<close> for an optional
  argument is \<open>None\<close> of the option type.
\<close>

type_synonym path = string

datatype error =
    AssertionError string
  | ValueError string
  | NotImplementedError
  | AttributeError string
  | FileNotFoundError path
  | BulkCopyError nat string
  | ExternalError string

datatype pyval = PStr string | PBool bool

text \<open>Truth value of an optional string argument: \<open>None\<close> and \<open>""\<close> are false.\<close>

fun truthy :: "string option \<Rightarrow> bool" where
  "truthy None = False"
| "truthy (Some s) = (s \<noteq> [])"

text \<open>\<open>str(x)\<close> as an f-string placeholder \<open>{x}\<close> renders it.\<close>

fun py_str_opt :: "string option \<Rightarrow> string" where
  "py_str_opt None = ''None''"
| "py_str_opt (Some s) = s"

fun py_str :: "pyval \<Rightarrow> string" where
  "py_str (PStr s) = s"
| "py_str (PBool b) = (if b then ''True'' else ''False'')"

text \<open>Python's \<open>sub in s\<close> on strings: \<open>sub\<close> occurs in \<open>s\<close> as a contiguous run.\<close>

fun str_contains :: "string \<Rightarrow> string \<Rightarrow> bool" where
  "str_contains sub [] = (sub = [])"
| "str_contains sub (c # cs) = (take (length sub) (c # cs) = sub \<or> str_contains sub cs)"

text \<open>\<open>sep.join(parts)\<close>.\<close>

fun join :: "string \<Rightarrow> string list \<Rightarrow> string" where
  "join sep [] = []"
| "join sep [p] = p"
| "join sep (p # q # ps) = p @ sep @ join sep (q # ps)"

text \<open>
  \<open>repr\<close> of a string, as \<open>{v!r}\<close> renders it: single quotes unless the string holds
  a single quote and no double quote; the backslash and the chosen quote are escaped
  with a backslash, tab, newline and carriage return by their letters, every other
  non-printable code point as \<open>\xhh\<close>.
\<close>

definition hexdigit :: "nat \<Rightarrow> char" where
  "hexdigit n = ''0123456789abcdef'' ! (n mod 16)"

definition isprintable :: "char \<Rightarrow> bool" where
  "isprintable c =
     (let n = (of_char c :: nat)
      in (32 \<le> n \<and> n < 127) \<or> (161 \<le> n \<and> n \<noteq> 173))"

definition repr_char :: "char \<Rightarrow> char \<Rightarrow> string" where
  "repr_char q c =
     (if c = q \<or> c = CHR 0x5C then [CHR 0x5C, c]
      else if c = CHR 0x09 then [CHR 0x5C, CHR ''t'']
      else if c = CHR 0x0A then [CHR 0x5C, CHR ''n'']
      else if c = CHR 0x0D then [CHR 0x5C, CHR ''r'']
      else if isprintable c then [c]
      else [CHR 0x5C, CHR ''x'', hexdigit ((of_char c :: nat) div 16), hexdigit (of_char c)])"

definition str_repr :: "string \<Rightarrow> string" where
  "str_repr s =
     (let q = (if CHR 0x27 \<in> set s \<and> CHR 0x22 \<notin> set s then CHR 0x22 else CHR 0x27)
      in q # concat (map (repr_char q) s) @ [q])"

fun py_repr :: "pyval \<Rightarrow> string" where
  "py_repr (PStr s) = str_repr s"
| "py_repr (PBool b) = (if b then ''True'' else ''False'')"

text \<open>Decimal rendering of an integer, as \<open>{n}\<close> in an f-string.\<close>

fun show_nat :: "nat \<Rightarrow> string" where
  "show_nat n =
     (if n < 10 then [''0123456789'' ! n]
      else show_nat (n div 10) @ [''0123456789'' ! (n mod 10)])"

declare show_nat.simps [simp del]

definition py_str_int :: "int \<Rightarrow> string" where
  "py_str_int i = (if i < 0 then CHR ''-'' # show_nat (nat (- i)) else show_nat (nat i))"

section \<open>Objects, the logger and the file system\<close>

text \<open>
  An instance's \<open>__dict__\<close> is an association list in insertion order. Reading an
  attribute that was never set raises \<open>AttributeError\<close>.
\<close>

type_synonym pyobject = "(string \<times> pyval) list"

definition setattr :: "pyobject \<Rightarrow> string \<Rightarrow> pyval \<Rightarrow> pyobject" where
  "setattr obj k v = AList.update k v obj"

definition hasattr :: "pyobject \<Rightarrow> string \<Rightarrow> bool" where
  "hasattr obj k = (map_of obj k \<noteq> None)"

definition getattr :: "pyobject \<Rightarrow> string \<Rightarrow> error + pyval" where
  "getattr obj k = (case map_of obj k of None \<Rightarrow> Inl (AttributeError k) | Some v \<Rightarrow> Inr v)"

section \<open>SqlCreds\<close>

type_synonym logrec = "string \<times> string"

text \<open>
  \<open>SqlCreds.__repr__\<close>: every attribute but \<open>password\<close> as \<open>key=repr(value)\<close>, joined
  by \<open>", "\<close>; when the object has a \<open>password\<close> attribute the fixed text
  \<open>", password=[REDACTED]"\<close> is appended.
\<close>

definition SqlCreds_repr :: "pyobject \<Rightarrow> string" where
  "SqlCreds_repr self =
     (let clsName = ''SqlCreds'';
          kwargs = join '', '' (map (\<lambda>(k, v). k @ ''='' @ py_repr v)
                                 (filter (\<lambda>(k, v). k \<noteq> ''password'') self));
          kwargs = (if hasattr self ''password'' then kwargs @ '', password=[REDACTED]''
                    else kwargs)
      in clsName @ ''('' @ kwargs @ '')'')"

text \<open>
  \<open>SqlCreds.__init__\<close>. The result is the error raised, or the object together with
  the record handed to \<open>logger.info\<close>.
\<close>

definition SqlCreds_init ::
  "string option \<Rightarrow> string option \<Rightarrow> string option \<Rightarrow> string option
     \<Rightarrow> error + (pyobject \<times> logrec)" where
  "SqlCreds_init server database username password =
     (if \<not> truthy server \<or> \<not> truthy database then
        Inl (ValueError (''Server and database can't be None, you passed ''
                          @ py_str_opt server @ '', '' @ py_str_opt database))
      else
        let self = setattr [] ''server'' (PStr (the server));
            self = setattr self ''database'' (PStr (the database));
            self = (if truthy username \<and> truthy password then
                      let self = setattr self ''username'' (PStr (the username));
                          self = setattr self ''password'' (PStr (the password))
                      in setattr self ''with_krb_auth'' (PBool False)
                    else setattr self ''with_krb_auth'' (PBool True))
        in Inr (self, (''INFO'', ''Created creds:'' @ [CHR 0x09] @ SqlCreds_repr self)))"

section \<open>Constants of \<open>bcpandas/constants.py\<close>\<close>

text \<open>
  Modelled from the spec: the constants \<open>SQL_TYPES\<close>, \<open>IF_EXISTS_OPTIONS\<close>, \<open>TABLE\<close>,
  \<open>VIEW\<close>, \<open>IN\<close> and \<open>OUT\<close> of \<open>constants.py\<close>. The object kind is one of table and
  view, the existence policy one of fail, replace and append, the direction in or out.
\<close>

definition TABLE :: string where "TABLE = ''table''"
definition VIEW :: string where "VIEW = ''view''"
definition SQL_TYPES :: "string list" where "SQL_TYPES = [TABLE, VIEW]"
definition IF_EXISTS_OPTIONS :: "string list" where
  "IF_EXISTS_OPTIONS = [''fail'', ''replace'', ''append'']"
definition IN :: string where "IN = ''in''"
definition OUT :: string where "OUT = ''out''"

section \<open>Datasets and the arguments of the collaborators\<close>

datatype cell = CInt int | CStr string | CNaN

record dataframe =
  df_index :: "cell list"
  df_columns :: "(string \<times> cell list) list"

datatype quoting = QUOTE_MINIMAL | QUOTE_ALL | QUOTE_NONNUMERIC | QUOTE_NONE

text \<open>The keyword arguments of \<open>DataFrame.to_csv\<close> that \<open>to_sql\<close> passes.\<close>

record csv_args =
  csv_sep :: string
  csv_header :: bool
  csv_index :: bool
  csv_quoting :: quoting
  csv_quotechar :: string
  csv_line_terminator :: string
  csv_doublequote :: bool
  csv_escapechar :: "string option"

datatype index_col = IndexColFalse | IndexColNone | IndexCol nat

text \<open>
  The arguments of \<open>pandas.read_csv\<close>. \<open>read_sql\<close> passes \<open>header\<close>, \<open>names\<close> and
  \<open>index_col\<close>; it passes no separator, so the field \<open>rc_sep\<close> holds the default of
  pandas, a comma.
\<close>

record read_csv_args =
  rc_sep :: string
  rc_header :: "nat option"
  rc_names :: "string list"
  rc_index_col :: index_col

record bcp_args =
  bcp_sql_item :: string
  bcp_direction :: string
  bcp_flat_file :: path
  bcp_format_file_path :: "path option"
  bcp_creds :: pyobject
  bcp_sql_type :: string
  bcp_schema :: string
  bcp_batch_size :: "int option"

record sqlcmd_args =
  cmd_command :: string
  cmd_server :: pyval
  cmd_database :: pyval
  cmd_username :: pyval
  cmd_password :: pyval

text \<open>What one run of the external bulk-copy program gives back.\<close>

record bcp_outcome =
  bcp_exit_status :: nat
  bcp_output :: string
  bcp_exported :: string

datatype call =
    ToCsv path csv_args
  | Sqlcmd sqlcmd_args
  | Bcp bcp_args
  | Connect string
  | ReadSqlQuery string string
  | ReadCsv path read_csv_args

text \<open>
  The state a call runs in: the file system (paths with their contents), the records
  handed to the module's logger, and the calls made to the collaborators, in order.
\<close>

record world =
  files :: "(path \<times> string) list"
  log :: "logrec list"
  calls :: "call list"

type_synonym 'a result = "(error + 'a) \<times> world"

text \<open>
  The collaborators that are not part of \<open>main.py\<close>: the three formatting constants of
  \<open>constants.py\<close>, pandas, pyodbc, and the helpers of \<open>utils.py\<close> whose outcome the
  module only passes on. Each is a parameter.
\<close>

record collab =
  DELIMITER :: string
  NEWLINE :: string
  QUOTECHAR :: string
  to_csv_result :: "dataframe \<Rightarrow> csv_args \<Rightarrow> error + string"
  build_format_file :: "dataframe \<Rightarrow> error + string"
  get_sql_create_statement :: "dataframe \<Rightarrow> string \<Rightarrow> string \<Rightarrow> error + string"
  sqlcmd_result :: "sqlcmd_args \<Rightarrow> error option"
  bcp_result :: "bcp_args \<Rightarrow> (path \<times> string) list \<Rightarrow> bcp_outcome"
  connect_result :: "string \<Rightarrow> error option"
  query_result :: "string \<Rightarrow> string \<Rightarrow> error + dataframe"
  read_csv_result :: "string \<Rightarrow> read_csv_args \<Rightarrow> error + dataframe"

section \<open>Sequencing, logging and files\<close>

definition and_then :: "(world \<Rightarrow> 'a result) \<Rightarrow> ('a \<Rightarrow> world \<Rightarrow> 'b result) \<Rightarrow> world \<Rightarrow> 'b result" where
  "and_then m f w = (case m w of (Inl e, w1) \<Rightarrow> (Inl e, w1) | (Inr x, w1) \<Rightarrow> f x w1)"

definition lift :: "error + 'a \<Rightarrow> world \<Rightarrow> 'a result" where
  "lift r w = (r, w)"

text \<open>
  \<open>try: body finally: fin\<close>. The \<open>finally\<close> block runs whatever the body did; an
  exception of the \<open>finally\<close> block replaces the body's outcome.
\<close>

definition try_finally :: "(world \<Rightarrow> 'a result) \<Rightarrow> (world \<Rightarrow> unit result) \<Rightarrow> world \<Rightarrow> 'a result" where
  "try_finally body fin w =
     (case body w of (r, w1) \<Rightarrow>
        (case fin w1 of (Inl e, w2) \<Rightarrow> (Inl e, w2) | (Inr u, w2) \<Rightarrow> (r, w2)))"

definition logger_debug :: "string \<Rightarrow> world \<Rightarrow> unit result" where
  "logger_debug msg w = (Inr (), w\<lparr>log := log w @ [(''DEBUG'', msg)]\<rparr>)"

text \<open>
  \<open>open(p, "w")\<close> followed by \<open>write(txt)\<close>: the file is created or replaced. The
  write is taken to succeed.
\<close>

definition write_file :: "path \<Rightarrow> string \<Rightarrow> world \<Rightarrow> unit result" where
  "write_file p txt w = (Inr (), w\<lparr>files := AList.update p txt (files w)\<rparr>)"

text \<open>\<open>os.remove(p)\<close> raises when there is no such file.\<close>

definition os_remove :: "path \<Rightarrow> world \<Rightarrow> unit result" where
  "os_remove p w =
     (if map_of (files w) p = None then (Inl (FileNotFoundError p), w)
      else (Inr (), w\<lparr>files := AList.delete p (files w)\<rparr>))"

primrec longest :: "path list \<Rightarrow> nat" where
  "longest [] = 0"
| "longest (p # ps) = max (length p) (longest ps)"

definition temp_name :: "(path \<times> string) list \<Rightarrow> path" where
  "temp_name fs = ''/tmp/'' @ replicate (Suc (longest (map fst fs))) CHR ''x''"

text \<open>
  Modelled from the spec: \<open>get_temp_file\<close> of \<open>utils.py\<close>. It returns the path of a
  new, uniquely named, empty file in the temporary directory; the name chosen here is
  longer than every name in use.
\<close>

definition get_temp_file :: "world \<Rightarrow> path result" where
  "get_temp_file w =
     (let p = temp_name (files w)
      in (Inr p, w\<lparr>files := AList.update p [] (files w)\<rparr>))"

section \<open>Calls to the collaborators\<close>

text \<open>\<open>df.to_csv(path_or_buf=p, ...)\<close>: pandas writes the text it produced to \<open>p\<close>.\<close>

definition df_to_csv :: "collab \<Rightarrow> dataframe \<Rightarrow> path \<Rightarrow> csv_args \<Rightarrow> world \<Rightarrow> unit result" where
  "df_to_csv ext df p args w =
     (let w1 = w\<lparr>calls := calls w @ [ToCsv p args]\<rparr>
      in case to_csv_result ext df args of
           Inl e \<Rightarrow> (Inl e, w1)
         | Inr txt \<Rightarrow> write_file p txt w1)"

definition sqlcmd :: "collab \<Rightarrow> sqlcmd_args \<Rightarrow> world \<Rightarrow> unit result" where
  "sqlcmd ext args w =
     (let w1 = w\<lparr>calls := calls w @ [Sqlcmd args]\<rparr>
      in case sqlcmd_result ext args of Some e \<Rightarrow> (Inl e, w1) | None \<Rightarrow> (Inr (), w1))"

text \<open>
  Modelled from the spec: \<open>bcp\<close> of \<open>utils.py\<close>. It runs the external program once;
  in the outbound direction the program writes the exported rows to the flat file; a
  non-zero exit status is a \<open>BulkCopyError\<close> carrying the status and the captured
  output.
\<close>

definition bcp :: "collab \<Rightarrow> bcp_args \<Rightarrow> world \<Rightarrow> unit result" where
  "bcp ext args w =
     (let out = bcp_result ext args (files w);
          w1 = w\<lparr>calls := calls w @ [Bcp args]\<rparr>;
          w2 = (if bcp_direction args = OUT
                then w1\<lparr>files := AList.update (bcp_flat_file args) (bcp_exported out) (files w1)\<rparr>
                else w1)
      in if bcp_exit_status out \<noteq> 0
         then (Inl (BulkCopyError (bcp_exit_status out) (bcp_output out)), w2)
         else (Inr (), w2))"

definition pyodbc_connect :: "collab \<Rightarrow> string \<Rightarrow> world \<Rightarrow> string result" where
  "pyodbc_connect ext conn_str w =
     (let w1 = w\<lparr>calls := calls w @ [Connect conn_str]\<rparr>
      in case connect_result ext conn_str of Some e \<Rightarrow> (Inl e, w1) | None \<Rightarrow> (Inr conn_str, w1))"

definition pd_read_sql_query :: "collab \<Rightarrow> string \<Rightarrow> string \<Rightarrow> world \<Rightarrow> dataframe result" where
  "pd_read_sql_query ext sql con w =
     (query_result ext sql con, w\<lparr>calls := calls w @ [ReadSqlQuery sql con]\<rparr>)"

definition pd_read_csv :: "collab \<Rightarrow> path \<Rightarrow> read_csv_args \<Rightarrow> world \<Rightarrow> dataframe result" where
  "pd_read_csv ext p args w =
     (let w1 = w\<lparr>calls := calls w @ [ReadCsv p args]\<rparr>
      in case map_of (files w) p of
           None \<Rightarrow> (Inl (FileNotFoundError p), w1)
         | Some txt \<Rightarrow> (read_csv_result ext txt args, w1))"

section \<open>to_sql\<close>

text \<open>
  The body of the \<open>if_exists == "replace"\<close> branch. The keyword arguments of \<open>sqlcmd\<close>
  are evaluated from left to right, the generated statement first, then the four
  attributes of the credential, before \<open>sqlcmd\<close> is entered.
\<close>

definition to_sql_replace :: "collab \<Rightarrow> dataframe \<Rightarrow> string \<Rightarrow> pyobject \<Rightarrow> string \<Rightarrow> world \<Rightarrow> unit result" where
  "to_sql_replace ext df table_name creds schema =
     and_then (lift (get_sql_create_statement ext df table_name schema)) (\<lambda>command.
     and_then (lift (getattr creds ''server'')) (\<lambda>server.
     and_then (lift (getattr creds ''database'')) (\<lambda>database.
     and_then (lift (getattr creds ''username'')) (\<lambda>username.
     and_then (lift (getattr creds ''password'')) (\<lambda>password.
       sqlcmd ext \<lparr>cmd_command = command, cmd_server = server, cmd_database = database,
                   cmd_username = username, cmd_password = password\<rparr>)))))"

text \<open>The arguments of the inbound \<open>bcp\<close> call.\<close>

definition to_sql_bcp_args ::
  "string \<Rightarrow> path \<Rightarrow> path \<Rightarrow> pyobject \<Rightarrow> string \<Rightarrow> string \<Rightarrow> int option \<Rightarrow> bcp_args" where
  "to_sql_bcp_args table_name csv_file_path fmt_file_path creds sql_type schema batch_size =
     \<lparr>bcp_sql_item = table_name, bcp_direction = IN, bcp_flat_file = csv_file_path,
      bcp_format_file_path = Some fmt_file_path, bcp_creds = creds,
      bcp_sql_type = sql_type, bcp_schema = schema, bcp_batch_size = batch_size\<rparr>"

text \<open>The \<open>try\<close> block of \<open>to_sql\<close>.\<close>

definition to_sql_try ::
  "collab \<Rightarrow> dataframe \<Rightarrow> string \<Rightarrow> pyobject \<Rightarrow> string \<Rightarrow> string \<Rightarrow> string \<Rightarrow> int option
     \<Rightarrow> path \<Rightarrow> path \<Rightarrow> world \<Rightarrow> unit result" where
  "to_sql_try ext df table_name creds sql_type schema if_exists batch_size
       csv_file_path fmt_file_path =
     (if if_exists = ''fail'' then lift (Inl NotImplementedError)
      else
        and_then (if if_exists = ''replace'' then to_sql_replace ext df table_name creds schema
                  else lift (Inr ())) (\<lambda>u.
          bcp ext (to_sql_bcp_args table_name csv_file_path fmt_file_path creds sql_type
                     schema batch_size)))"

text \<open>The \<open>finally\<close> block of \<open>to_sql\<close>.\<close>

definition to_sql_finally :: "bool \<Rightarrow> path \<Rightarrow> path \<Rightarrow> world \<Rightarrow> unit result" where
  "to_sql_finally debug csv_file_path fmt_file_path =
     (if \<not> debug then
        and_then (logger_debug ''Deleting temp CSV and format files'') (\<lambda>u.
        and_then (os_remove csv_file_path) (\<lambda>u.
          os_remove fmt_file_path))
      else
        logger_debug (''`to_sql` DEBUG mode, not deleting the files. CSV file is at ''
                        @ csv_file_path @ '', format file is at '' @ fmt_file_path))"

text \<open>The keyword arguments \<open>to_sql\<close> gives to \<open>df.to_csv\<close>.\<close>

definition to_sql_csv_args :: "collab \<Rightarrow> csv_args" where
  "to_sql_csv_args ext =
     \<lparr>csv_sep = DELIMITER ext, csv_header = False, csv_index = False,
      csv_quoting = QUOTE_MINIMAL, csv_quotechar = QUOTECHAR ext,
      csv_line_terminator = NEWLINE ext, csv_doublequote = True,
      csv_escapechar = None\<rparr>"

text \<open>
  \<open>to_sql\<close>. A failing \<open>assert\<close> raises \<open>AssertionError\<close>. The parameter \<open>index\<close> is
  accepted and not used by the body.
\<close>

definition to_sql ::
  "collab \<Rightarrow> dataframe \<Rightarrow> string \<Rightarrow> pyobject \<Rightarrow> string \<Rightarrow> string \<Rightarrow> bool \<Rightarrow> string
     \<Rightarrow> int option \<Rightarrow> bool \<Rightarrow> world \<Rightarrow> unit result" where
  "to_sql ext df table_name creds sql_type schema index if_exists batch_size debug =
     (if sql_type \<notin> set SQL_TYPES then lift (Inl (AssertionError []))
      else if if_exists \<notin> set IF_EXISTS_OPTIONS then lift (Inl (AssertionError []))
      else
        and_then get_temp_file (\<lambda>csv_file_path.
        and_then (df_to_csv ext df csv_file_path (to_sql_csv_args ext)) (\<lambda>u.
        and_then (logger_debug (''Saved dataframe to temp CSV file at '' @ csv_file_path)) (\<lambda>u.
        and_then get_temp_file (\<lambda>fmt_file_path.
        and_then (lift (build_format_file ext df)) (\<lambda>fmt_file_txt.
        and_then (write_file fmt_file_path fmt_file_txt) (\<lambda>u.
        and_then (logger_debug (''Created BCP format file at '' @ fmt_file_path)) (\<lambda>u.
          try_finally
            (to_sql_try ext df table_name creds sql_type schema if_exists batch_size
               csv_file_path fmt_file_path)
            (to_sql_finally debug csv_file_path fmt_file_path)))))))))"

section \<open>read_sql\<close>

definition driver_message :: string where
  "driver_message = ''SQL Server ODBC Driver must be either 13 or 17''"

definition separator_message :: string where
  "separator_message =
     ''The SQL item cannot contain the ';' character, it interferes with getting the column names''"

text \<open>The connection string handed to \<open>pyodbc.connect\<close>.\<close>

definition connection_string :: "int \<Rightarrow> pyval \<Rightarrow> pyval \<Rightarrow> pyval \<Rightarrow> pyval \<Rightarrow> string" where
  "connection_string mssql_odbc_driver_version server database username password =
     ''DRIVER={ODBC Driver '' @ py_str_int mssql_odbc_driver_version
       @ '' for SQL Server};SERVER='' @ py_str server
       @ '';DATABASE='' @ py_str database
       @ '';UID='' @ py_str username @ '';PWD='' @ py_str password"

text \<open>The preview query that discovers the column names.\<close>

definition preview_query :: "string \<Rightarrow> string \<Rightarrow> string" where
  "preview_query sql_type table_name =
     ''SELECT TOP 2 * FROM ''
       @ (if sql_type \<in> {TABLE, VIEW} then table_name else ''('' @ table_name @ '')'')
       @ '' as qry''"

text \<open>The arguments of the outbound \<open>bcp\<close> call and of \<open>pd.read_csv\<close>.\<close>

definition read_sql_bcp_args ::
  "string \<Rightarrow> path \<Rightarrow> pyobject \<Rightarrow> string \<Rightarrow> string \<Rightarrow> int option \<Rightarrow> bcp_args" where
  "read_sql_bcp_args table_name file_path creds sql_type schema batch_size =
     \<lparr>bcp_sql_item = table_name, bcp_direction = OUT, bcp_flat_file = file_path,
      bcp_format_file_path = None, bcp_creds = creds, bcp_sql_type = sql_type,
      bcp_schema = schema, bcp_batch_size = batch_size\<rparr>"

definition read_sql_csv_args :: "string list \<Rightarrow> read_csv_args" where
  "read_sql_csv_args cols =
     \<lparr>rc_sep = '','', rc_header = None, rc_names = cols, rc_index_col = IndexColFalse\<rparr>"

text \<open>\<open>read_sql\<close>. The columns are those of the preview query's result.\<close>

definition read_sql ::
  "collab \<Rightarrow> string \<Rightarrow> pyobject \<Rightarrow> string \<Rightarrow> string \<Rightarrow> int \<Rightarrow> int option
     \<Rightarrow> world \<Rightarrow> dataframe result" where
  "read_sql ext table_name creds sql_type schema mssql_odbc_driver_version batch_size =
     (if sql_type \<notin> set SQL_TYPES then lift (Inl (AssertionError []))
      else if mssql_odbc_driver_version \<notin> {13, 17} then
        lift (Inl (AssertionError driver_message))
      else if str_contains '';'' table_name then lift (Inl (ValueError separator_message))
      else
        and_then (lift (getattr creds ''server'')) (\<lambda>server.
        and_then (lift (getattr creds ''database'')) (\<lambda>database.
        and_then (lift (getattr creds ''username'')) (\<lambda>username.
        and_then (lift (getattr creds ''password'')) (\<lambda>password.
        and_then (pyodbc_connect ext
                    (connection_string mssql_odbc_driver_version server database
                       username password)) (\<lambda>db_conn.
        and_then (pd_read_sql_query ext (preview_query sql_type table_name) db_conn) (\<lambda>preview.
        and_then get_temp_file (\<lambda>file_path.
          try_finally
            (and_then (bcp ext (read_sql_bcp_args table_name file_path creds sql_type schema
                                  batch_size)) (\<lambda>u.
               pd_read_csv ext file_path (read_sql_csv_args (map fst (df_columns preview)))))
            (os_remove file_path)))))))))"

section \<open>Sample collaborators\<close>

text \<open>
  Concrete collaborators on which the functions above can be run. They stand for
  pandas on plain data: cells that are integers or text, one-character separators,
  lines ended by a line feed. \<open>sample_to_csv\<close> writes one line per row, the index first
  when asked for, and quotes a field that holds the separator, the quote character
  or a line break. \<open>sample_read_csv\<close> splits the text into lines and fields, names the
  columns in order, fills a missing field with NaN, and reads a column as integers
  when every field of it is one.
\<close>

fun cell_str :: "cell \<Rightarrow> string" where
  "cell_str (CInt i) = py_str_int i"
| "cell_str (CStr s) = s"
| "cell_str CNaN = []"

definition needs_quote :: "csv_args \<Rightarrow> string \<Rightarrow> bool" where
  "needs_quote args f =
     list_ex (\<lambda>c. c \<in> set (csv_sep args) \<or> c \<in> set (csv_quotechar args)
                  \<or> c = CHR 0x0A \<or> c = CHR 0x0D) f"

definition csv_field :: "csv_args \<Rightarrow> string \<Rightarrow> string" where
  "csv_field args f =
     (if csv_quoting args = QUOTE_MINIMAL \<and> needs_quote args f then
        csv_quotechar args
          @ concat (map (\<lambda>c. if [c] = csv_quotechar args \<and> csv_doublequote args
                              then [c, c] else [c]) f)
          @ csv_quotechar args
      else f)"

definition csv_row :: "dataframe \<Rightarrow> csv_args \<Rightarrow> nat \<Rightarrow> string" where
  "csv_row df args i =
     join (csv_sep args)
       (map (csv_field args \<circ> cell_str)
          ((if csv_index args then [df_index df ! i] else [])
             @ map (\<lambda>(name, cells). cells ! i) (df_columns df)))
     @ csv_line_terminator args"

definition sample_to_csv :: "dataframe \<Rightarrow> csv_args \<Rightarrow> error + string" where
  "sample_to_csv df args =
     Inr ((if csv_header args then
             join (csv_sep args)
               ((if csv_index args then [[]] else []) @ map fst (df_columns df))
             @ csv_line_terminator args
           else [])
          @ concat (map (csv_row df args) [0..<length (df_index df)]))"

fun split_on :: "char \<Rightarrow> string \<Rightarrow> string list" where
  "split_on c [] = [[]]"
| "split_on c (x # xs) =
     (if x = c then [] # split_on c xs
      else (case split_on c xs of [] \<Rightarrow> [[x]] | r # rs \<Rightarrow> (x # r) # rs))"

fun parse_nat :: "nat \<Rightarrow> string \<Rightarrow> nat option" where
  "parse_nat acc [] = Some acc"
| "parse_nat acc (c # cs) =
     (let n = (of_char c :: nat)
      in if 48 \<le> n \<and> n \<le> 57 then parse_nat (10 * acc + (n - 48)) cs else None)"

fun parse_int :: "string \<Rightarrow> int option" where
  "parse_int [] = None"
| "parse_int (c # cs) =
     (if c = CHR ''-'' then (if cs = [] then None else map_option (\<lambda>n. - int n) (parse_nat 0 cs))
      else map_option int (parse_nat 0 (c # cs)))"

definition read_column :: "string option list \<Rightarrow> cell list" where
  "read_column fs =
     (if list_all (\<lambda>f. case f of None \<Rightarrow> False | Some s \<Rightarrow> parse_int s \<noteq> None) fs then
        map (\<lambda>f. case f of None \<Rightarrow> CNaN | Some s \<Rightarrow> CInt (the (parse_int s))) fs
      else
        map (\<lambda>f. case f of None \<Rightarrow> CNaN | Some s \<Rightarrow> if s = [] then CNaN else CStr s) fs)"

definition sample_read_csv :: "string \<Rightarrow> read_csv_args \<Rightarrow> error + dataframe" where
  "sample_read_csv txt args =
     (case rc_sep args of
        [c] \<Rightarrow>
          (let rows = map (split_on c) (filter (\<lambda>l. l \<noteq> []) (split_on (CHR 0x0A) txt))
           in Inr \<lparr>df_index = map (\<lambda>i. CInt (int i)) [0..<length rows],
                   df_columns =
                     map (\<lambda>(j, name).
                            (name, read_column
                               (map (\<lambda>r. if j < length r then Some (r ! j) else None) rows)))
                         (enumerate 0 (rc_names args))\<rparr>)
      | _ \<Rightarrow> Inl (ExternalError ''separator''))"

text \<open>
  The format-file builder of the sample: it refuses a dataset without columns, as the
  specification of the builder asks, and lists the column names otherwise.
\<close>

definition sample_format_file :: "dataframe \<Rightarrow> error + string" where
  "sample_format_file df =
     (if df_columns df = [] then Inl (ExternalError ''SchemaError'')
      else Inr (concat (map (\<lambda>(name, cells). name @ [CHR 0x0A]) (df_columns df))))"

text \<open>
  The sample collaborators, for a field delimiter \<open>delim\<close>: the database answers every
  statement and query, the preview query returns \<open>preview\<close>, and the bulk-copy program
  ends with \<open>out\<close>.
\<close>

definition sample_collab :: "string \<Rightarrow> dataframe \<Rightarrow> bcp_outcome \<Rightarrow> collab" where
  "sample_collab delim preview out =
     \<lparr>DELIMITER = delim, NEWLINE = [CHR 0x0A], QUOTECHAR = [CHR 0x22],
      to_csv_result = sample_to_csv,
      build_format_file = sample_format_file,
      get_sql_create_statement = (\<lambda>df table_name schema.
         Inr (''CREATE TABLE '' @ schema @ ''.'' @ table_name)),
      sqlcmd_result = (\<lambda>args. None),
      bcp_result = (\<lambda>args fs. out),
      connect_result = (\<lambda>conn_str. None),
      query_result = (\<lambda>sql con. Inr preview),
      read_csv_result = sample_read_csv\<rparr>"

definition bcp_ok :: "string \<Rightarrow> bcp_outcome" where
  "bcp_ok txt = \<lparr>bcp_exit_status = 0, bcp_output = [], bcp_exported = txt\<rparr>"

definition empty_world :: world where
  "empty_world = \<lparr>files = [], log = [], calls = []\<rparr>"

definition people :: dataframe where
  "people = \<lparr>df_index = [CInt 0, CInt 1],
             df_columns = [(''id'', [CInt 1, CInt 2]), (''name'', [CStr ''a'', CStr ''b''])]\<rparr>"

definition no_columns :: dataframe where
  "no_columns = \<lparr>df_index = [], df_columns = []\<rparr>"

definition xy_preview :: dataframe where
  "xy_preview = \<lparr>df_index = [], df_columns = [(''x'', []), (''y'', [])]\<rparr>"

definition password_creds :: pyobject where
  "password_creds =
     [(''server'', PStr ''srv''), (''database'', PStr ''db''), (''username'', PStr ''bob''),
      (''password'', PStr ''hunter2''), (''with_krb_auth'', PBool False)]"

definition integrated_creds :: pyobject where
  "integrated_creds =
     [(''server'', PStr ''srv''), (''database'', PStr ''db''), (''with_krb_auth'', PBool True)]"

section \<open>The error classes of the specification\<close>

text \<open>
  The specification speaks of a ValidationError for a bad enumerated argument, a
  disallowed character and a missing credential field. The module raises
  \<open>AssertionError\<close> for the first and \<open>ValueError\<close> for the other two.
\<close>

fun ValidationError :: "error \<Rightarrow> bool" where
  "ValidationError (AssertionError m) = True"
| "ValidationError (ValueError m) = True"
| "ValidationError e = False"

section \<open>Auxiliary facts\<close>

lemma str_contains_char: "str_contains [c] s = (c \<in> set s)"
  by (induction s) auto

lemma longest_ge: "p \<in> set ps \<Longrightarrow> length p \<le> longest ps"
  by (induction ps) auto

lemma temp_name_fresh: "temp_name fs \<notin> fst ` set fs"
proof
  assume "temp_name fs \<in> fst ` set fs"
  then have "temp_name fs \<in> set (map fst fs)" by simp
  then have "length (temp_name fs) \<le> longest (map fst fs)" by (rule longest_ge)
  then show False by (simp add: temp_name_def)
qed

lemma temp_name_None: "map_of fs (temp_name fs) = None"
  by (simp add: map_of_eq_None_iff temp_name_fresh)

lemma temp_name_update_neq: "temp_name (AList.update p v fs) \<noteq> p"
proof
  assume "temp_name (AList.update p v fs) = p"
  moreover have "p \<in> fst ` set (AList.update p v fs)" by (simp add: dom_update)
  ultimately show False using temp_name_fresh [of "AList.update p v fs"] by simp
qed

lemma delete_update_fresh: "map_of fs p = None \<Longrightarrow> AList.delete p (AList.update p v fs) = fs"
  by (simp add: delete_update_same map_of_eq_None_iff)

subsection \<open>try and finally\<close>

lemma try_finally_fst:
  "fst (fin (snd (body w))) = Inr () \<Longrightarrow> fst (try_finally body fin w) = fst (body w)"
  by (cases "body w"; cases "fin (snd (body w))") (auto simp: try_finally_def split: sum.splits)

lemma try_finally_snd: "snd (try_finally body fin w) = snd (fin (snd (body w)))"
  by (cases "body w"; cases "fin (snd (body w))") (auto simp: try_finally_def split: sum.splits)

lemma try_finally_isl: "isl (fst (body w)) \<Longrightarrow> isl (fst (try_finally body fin w))"
  by (cases "body w"; cases "fin (snd (body w))") (auto simp: try_finally_def split: sum.splits)

subsection \<open>The steps of to_sql\<close>

text \<open>
  Once the arguments are valid and both scratch files are written, \<open>to_sql\<close> is its
  \<open>try\<close> block followed by its \<open>finally\<close> block, run on the paths \<open>p\<close> and \<open>q\<close>.
\<close>

lemma to_sql_unfold:
  assumes "sql_type \<in> set SQL_TYPES" and "if_exists \<in> set IF_EXISTS_OPTIONS"
    and "to_csv_result ext df (to_sql_csv_args ext) = Inr txt"
    and "build_format_file ext df = Inr fmt"
  shows "to_sql ext df table_name creds sql_type schema index if_exists batch_size debug w =
     (let p = temp_name (files w); fs = AList.update p txt (files w); q = temp_name fs
      in try_finally
           (to_sql_try ext df table_name creds sql_type schema if_exists batch_size p q)
           (to_sql_finally debug p q)
           (w\<lparr>calls := calls w @ [ToCsv p (to_sql_csv_args ext)],
              files := AList.update q fmt fs,
              log := log w @ [(''DEBUG'', ''Saved dataframe to temp CSV file at '' @ p),
                              (''DEBUG'', ''Created BCP format file at '' @ q)]\<rparr>))"
  using assms
  by (simp add: to_sql_def and_then_def get_temp_file_def df_to_csv_def write_file_def
      logger_debug_def lift_def Let_def)

text \<open>A failure of \<open>df.to_csv\<close> or of \<open>build_format_file\<close> ends the call before the \<open>try\<close>.\<close>

lemma to_sql_early:
  assumes "sql_type \<in> set SQL_TYPES" and "if_exists \<in> set IF_EXISTS_OPTIONS"
  shows "to_csv_result ext df (to_sql_csv_args ext) = Inl e \<Longrightarrow>
     to_sql ext df table_name creds sql_type schema index if_exists batch_size debug w =
       (Inl e, w\<lparr>calls := calls w @ [ToCsv (temp_name (files w)) (to_sql_csv_args ext)],
                  files := AList.update (temp_name (files w)) [] (files w)\<rparr>)"
    and "to_csv_result ext df (to_sql_csv_args ext) = Inr txt \<Longrightarrow>
     build_format_file ext df = Inl e \<Longrightarrow>
     to_sql ext df table_name creds sql_type schema index if_exists batch_size debug w =
       (Inl e, w\<lparr>calls := calls w @ [ToCsv (temp_name (files w)) (to_sql_csv_args ext)],
                  files := AList.update (temp_name (AList.update (temp_name (files w)) txt (files w))) []
                             (AList.update (temp_name (files w)) txt (files w)),
                  log := log w @ [(''DEBUG'', ''Saved dataframe to temp CSV file at ''
                                     @ temp_name (files w))]\<rparr>)"
  using assms
  by (simp_all add: to_sql_def and_then_def get_temp_file_def df_to_csv_def write_file_def
      logger_debug_def lift_def Let_def)

lemma to_sql_finally_removes:
  assumes "map_of (files w) p \<noteq> None" and "map_of (files w) q \<noteq> None" and "p \<noteq> q"
  shows "to_sql_finally False p q w =
     (Inr (), w\<lparr>log := log w @ [(''DEBUG'', ''Deleting temp CSV and format files'')],
                 files := AList.delete q (AList.delete p (files w))\<rparr>)"
  using assms
  by (simp add: to_sql_finally_def and_then_def logger_debug_def os_remove_def)

lemma to_sql_finally_ok:
  assumes "debug \<or> (map_of (files w) p \<noteq> None \<and> map_of (files w) q \<noteq> None \<and> p \<noteq> q)"
  shows "fst (to_sql_finally debug p q w) = Inr ()"
  using assms
  by (auto simp add: to_sql_finally_def and_then_def logger_debug_def os_remove_def)

lemma to_sql_finally_calls: "calls (snd (to_sql_finally debug p q w)) = calls w"
  by (simp add: to_sql_finally_def and_then_def logger_debug_def os_remove_def)

lemma to_sql_try_files:
  "files (snd (to_sql_try ext df table_name creds sql_type schema if_exists batch_size p q w))
     = files w"
  by (auto simp: to_sql_try_def to_sql_replace_def and_then_def lift_def bcp_def sqlcmd_def
      to_sql_bcp_args_def IN_def OUT_def Let_def split: sum.splits option.splits prod.splits)

lemma to_sql_prepared_files:
  "map_of (AList.update (temp_name (AList.update p txt fs)) fmt (AList.update p txt fs)) p \<noteq> None"
  "map_of (AList.update (temp_name (AList.update p txt fs)) fmt (AList.update p txt fs))
      (temp_name (AList.update p txt fs)) \<noteq> None"
  by (simp_all add: update_conv' temp_name_update_neq)

text \<open>
  When both scratch files were written, the outcome of the call is the outcome of the
  \<open>try\<close> block: the \<open>finally\<close> block finds both files and raises nothing.
\<close>

lemma to_sql_after_prepare:
  assumes "sql_type \<in> set SQL_TYPES" and "if_exists \<in> set IF_EXISTS_OPTIONS"
    and "to_csv_result ext df (to_sql_csv_args ext) = Inr txt"
    and "build_format_file ext df = Inr fmt"
    and "\<And>w'. fst (to_sql_try ext df table_name creds sql_type schema if_exists batch_size
            (temp_name (files w)) (temp_name (AList.update (temp_name (files w)) txt (files w))) w') = r"
  shows "fst (to_sql ext df table_name creds sql_type schema index if_exists batch_size debug w) = r"
proof -
  let ?p = "temp_name (files w)"
  let ?fs = "AList.update ?p txt (files w)"
  let ?q = "temp_name ?fs"
  let ?w = "w\<lparr>calls := calls w @ [ToCsv ?p (to_sql_csv_args ext)],
              files := AList.update ?q fmt ?fs,
              log := log w @ [(''DEBUG'', ''Saved dataframe to temp CSV file at '' @ ?p),
                              (''DEBUG'', ''Created BCP format file at '' @ ?q)]\<rparr>"
  let ?body = "to_sql_try ext df table_name creds sql_type schema if_exists batch_size ?p ?q"
  have files: "files (snd (?body ?w)) = AList.update ?q fmt ?fs"
    by (simp add: to_sql_try_files)
  have neq: "?p \<noteq> ?q" by (simp add: temp_name_update_neq [symmetric])
  have ex_p: "map_of (files (snd (?body ?w))) ?p \<noteq> None"
    unfolding files by (rule to_sql_prepared_files)
  have ex_q: "map_of (files (snd (?body ?w))) ?q \<noteq> None"
    unfolding files by (rule to_sql_prepared_files)
  have "debug \<or> (map_of (files (snd (?body ?w))) ?p \<noteq> None
           \<and> map_of (files (snd (?body ?w))) ?q \<noteq> None \<and> ?p \<noteq> ?q)"
    using ex_p ex_q neq by blast
  then have "fst (to_sql_finally debug ?p ?q (snd (?body ?w))) = Inr ()"
    by (rule to_sql_finally_ok)
  then have "fst (try_finally ?body (to_sql_finally debug ?p ?q) ?w) = fst (?body ?w)"
    by (rule try_finally_fst)
  then show ?thesis
    using assms(5) [of ?w] by (simp add: to_sql_unfold [OF assms(1-4)] Let_def)
qed

text \<open>
  With \<open>debug\<close> off, a call that reached the \<open>try\<close> block leaves the file system as it
  found it, whether the block succeeded or raised: both scratch files are removed.
\<close>

lemma to_sql_cleans_up:
  assumes "sql_type \<in> set SQL_TYPES" and "if_exists \<in> set IF_EXISTS_OPTIONS"
    and "to_csv_result ext df (to_sql_csv_args ext) = Inr txt"
    and "build_format_file ext df = Inr fmt"
  shows "files (snd (to_sql ext df table_name creds sql_type schema index if_exists batch_size
                       False w)) = files w"
proof -
  let ?p = "temp_name (files w)"
  let ?fs = "AList.update ?p txt (files w)"
  let ?q = "temp_name ?fs"
  let ?w = "w\<lparr>calls := calls w @ [ToCsv ?p (to_sql_csv_args ext)],
              files := AList.update ?q fmt ?fs,
              log := log w @ [(''DEBUG'', ''Saved dataframe to temp CSV file at '' @ ?p),
                              (''DEBUG'', ''Created BCP format file at '' @ ?q)]\<rparr>"
  let ?body = "to_sql_try ext df table_name creds sql_type schema if_exists batch_size ?p ?q"
  have files: "files (snd (?body ?w)) = AList.update ?q fmt ?fs"
    by (simp add: to_sql_try_files)
  have neq: "?p \<noteq> ?q" by (simp add: temp_name_update_neq [symmetric])
  have ex_p: "map_of (files (snd (?body ?w))) ?p \<noteq> None"
    unfolding files by (rule to_sql_prepared_files)
  have ex_q: "map_of (files (snd (?body ?w))) ?q \<noteq> None"
    unfolding files by (rule to_sql_prepared_files)
  have fin: "to_sql_finally False ?p ?q (snd (?body ?w)) =
          (Inr (), (snd (?body ?w))\<lparr>log := log (snd (?body ?w))
                       @ [(''DEBUG'', ''Deleting temp CSV and format files'')],
                 files := AList.delete ?q (AList.delete ?p (files (snd (?body ?w))))\<rparr>)"
    using ex_p ex_q neq by (rule to_sql_finally_removes)
  have "files (snd (to_sql_finally False ?p ?q (snd (?body ?w))))
          = AList.delete ?q (AList.delete ?p (AList.update ?q fmt ?fs))"
    unfolding fin files by simp
  also have "\<dots> = files w"
    by (simp add: delete_twist [of ?q ?p] delete_update_fresh temp_name_None)
  finally have "files (snd (to_sql_finally False ?p ?q (snd (?body ?w)))) = files w" .
  then show ?thesis
    by (simp add: to_sql_unfold [OF assms] Let_def try_finally_snd)
qed

text \<open>
  A bulk copy that ends with a non-zero status: the caller gets the \<open>BulkCopyError\<close>
  with the status and the captured output, after the \<open>finally\<close> block has run.
\<close>

lemma to_sql_bulk_copy_error:
  assumes "sql_type \<in> set SQL_TYPES"
    and "to_csv_result ext df (to_sql_csv_args ext) = Inr txt"
    and "build_format_file ext df = Inr fmt"
    and "\<And>args fs. bcp_result ext args fs = out" and "bcp_exit_status out \<noteq> 0"
  shows "fst (to_sql ext df table_name creds sql_type schema index ''append'' batch_size debug w)
           = Inl (BulkCopyError (bcp_exit_status out) (bcp_output out))"
proof -
  have ie: "''append'' \<in> set IF_EXISTS_OPTIONS" by (simp add: IF_EXISTS_OPTIONS_def)
  show ?thesis
    by (rule to_sql_after_prepare [OF assms(1) ie assms(2,3)])
       (simp add: to_sql_try_def and_then_def lift_def bcp_def Let_def assms(4,5))
qed

lemma to_sql_try_fail:
  "to_sql_try ext df table_name creds sql_type schema ''fail'' batch_size p q w
     = (Inl NotImplementedError, w)"
  by (simp add: to_sql_try_def lift_def)

lemma to_sql_try_replace_no_username:
  assumes "getattr creds ''username'' = Inl e"
  shows "isl (fst (to_sql_try ext df table_name creds sql_type schema ''replace'' batch_size p q w))"
    and "snd (to_sql_try ext df table_name creds sql_type schema ''replace'' batch_size p q w) = w"
  using assms
  by (auto simp: to_sql_try_def to_sql_replace_def and_then_def lift_def split: sum.splits)

lemma to_sql_try_replace_attribute_error:
  assumes "getattr creds ''server'' = Inr s" and "getattr creds ''database'' = Inr d"
    and "getattr creds ''username'' = Inl e"
    and "get_sql_create_statement ext df table_name schema = Inr command"
  shows "fst (to_sql_try ext df table_name creds sql_type schema ''replace'' batch_size p q w) = Inl e"
  using assms
  by (simp add: to_sql_try_def to_sql_replace_def and_then_def lift_def)

subsection \<open>The credential object\<close>

lemma SqlCreds_init_cases:
  "SqlCreds_init server database username password = Inr (self, lg) \<Longrightarrow>
   truthy server \<and> truthy database \<and>
   self = (if truthy username \<and> truthy password
           then [(''server'', PStr (the server)), (''database'', PStr (the database)),
                 (''username'', PStr (the username)), (''password'', PStr (the password)),
                 (''with_krb_auth'', PBool False)]
           else [(''server'', PStr (the server)), (''database'', PStr (the database)),
                 (''with_krb_auth'', PBool True)]) \<and>
   lg = (''INFO'', ''Created creds:'' @ [CHR 0x09] @ SqlCreds_repr self)"
  by (auto simp: SqlCreds_init_def setattr_def Let_def split: if_splits)

lemma SqlCreds_repr_password_mode:
  "SqlCreds_repr [(''server'', PStr s), (''database'', PStr d), (''username'', PStr u),
                  (''password'', PStr p), (''with_krb_auth'', PBool False)] =
     ''SqlCreds(server='' @ str_repr s @ '', database='' @ str_repr d @ '', username=''
       @ str_repr u @ '', with_krb_auth=False, password=[REDACTED])''"
  by (simp add: SqlCreds_repr_def hasattr_def)

lemma SqlCreds_repr_integrated_mode:
  "SqlCreds_repr [(''server'', PStr s), (''database'', PStr d), (''with_krb_auth'', PBool True)] =
     ''SqlCreds(server='' @ str_repr s @ '', database='' @ str_repr d @ '', with_krb_auth=True)''"
  by (simp add: SqlCreds_repr_def hasattr_def)

lemma integrated_getattr:
  assumes "SqlCreds_init server database username password = Inr (creds, lg)"
    and "\<not> (truthy username \<and> truthy password)"
  shows "getattr creds ''server'' = Inr (PStr (the server))"
    and "getattr creds ''database'' = Inr (PStr (the database))"
    and "getattr creds ''username'' = Inl (AttributeError ''username'')"
  using SqlCreds_init_cases [OF assms(1)] assms(2) by (simp_all add: getattr_def)

subsection \<open>Calls with a credential that has no user name\<close>

lemma read_sql_no_username:
  assumes "getattr creds ''username'' = Inl e"
  shows "isl (fst (read_sql ext table_name creds sql_type schema ver batch_size w))"
    and "snd (read_sql ext table_name creds sql_type schema ver batch_size w) = w"
  using assms
  by (auto simp: read_sql_def and_then_def lift_def split: sum.splits)

lemma read_sql_attribute_error:
  assumes "getattr creds ''server'' = Inr s" and "getattr creds ''database'' = Inr d"
    and "getattr creds ''username'' = Inl e"
    and "sql_type \<in> set SQL_TYPES" and "ver \<in> {13, 17}" and "CHR '';'' \<notin> set table_name"
  shows "fst (read_sql ext table_name creds sql_type schema ver batch_size w) = Inl e"
  using assms
  by (auto simp: read_sql_def and_then_def lift_def str_contains_char)

lemma to_sql_replace_no_username:
  assumes u: "getattr creds ''username'' = Inl e"
  shows "isl (fst (to_sql ext df table_name creds sql_type schema index ''replace'' batch_size debug w))
   \<and> calls (snd (to_sql ext df table_name creds sql_type schema index ''replace'' batch_size debug w))
        \<in> {calls w, calls w @ [ToCsv (temp_name (files w)) (to_sql_csv_args ext)]}"
proof (cases "sql_type \<in> set SQL_TYPES")
  case False
  then show ?thesis by (simp add: to_sql_def lift_def)
next
  case True
  note st = True
  have ie: "''replace'' \<in> set IF_EXISTS_OPTIONS" by (simp add: IF_EXISTS_OPTIONS_def)
  show ?thesis
  proof (cases "to_csv_result ext df (to_sql_csv_args ext)")
    case (Inl e)
    then show ?thesis by (simp add: to_sql_early(1) [OF st ie])
  next
    case (Inr csv_txt)
    note csv = Inr
    show ?thesis
    proof (cases "build_format_file ext df")
      case (Inl e)
      then show ?thesis by (simp add: to_sql_early(2) [OF st ie csv])
    next
      case (Inr ftxt)
      note fmt = Inr
      show ?thesis
        by (simp add: to_sql_unfold [OF st ie csv fmt] Let_def try_finally_snd try_finally_isl
            to_sql_finally_calls to_sql_try_replace_no_username [OF u])
    qed
  qed
qed

lemma to_sql_replace_attribute_error:
  assumes "getattr creds ''server'' = Inr s" and "getattr creds ''database'' = Inr d"
    and "getattr creds ''username'' = Inl e"
    and "sql_type \<in> set SQL_TYPES"
    and "to_csv_result ext df (to_sql_csv_args ext) = Inr csv"
    and "build_format_file ext df = Inr fmt"
    and "get_sql_create_statement ext df table_name schema = Inr command"
  shows "fst (to_sql ext df table_name creds sql_type schema index ''replace'' batch_size debug w) = Inl e"
proof -
  have ie: "''replace'' \<in> set IF_EXISTS_OPTIONS" by (simp add: IF_EXISTS_OPTIONS_def)
  show ?thesis
    by (rule to_sql_after_prepare [OF assms(4) ie assms(5,6)])
       (rule to_sql_try_replace_attribute_error [OF assms(1,2,3,7)])
qed

subsection \<open>The steps of read_sql\<close>

lemma read_sql_unfold:
  assumes "sql_type \<in> set SQL_TYPES" and "ver \<in> {13, 17}" and "CHR '';'' \<notin> set table_name"
    and "getattr creds ''server'' = Inr server" and "getattr creds ''database'' = Inr database"
    and "getattr creds ''username'' = Inr username" and "getattr creds ''password'' = Inr password"
    and "connect_result ext (connection_string ver server database username password) = None"
    and "query_result ext (preview_query sql_type table_name)
           (connection_string ver server database username password) = Inr preview"
  shows "read_sql ext table_name creds sql_type schema ver batch_size w =
     (let p = temp_name (files w); conn = connection_string ver server database username password
      in try_finally
           (and_then (bcp ext (read_sql_bcp_args table_name p creds sql_type schema batch_size))
              (\<lambda>u. pd_read_csv ext p (read_sql_csv_args (map fst (df_columns preview)))))
           (os_remove p)
           (w\<lparr>calls := calls w @ [Connect conn, ReadSqlQuery (preview_query sql_type table_name) conn],
              files := AList.update p [] (files w)\<rparr>))"
  using assms
  by (simp add: read_sql_def and_then_def lift_def str_contains_char pyodbc_connect_def
      pd_read_sql_query_def get_temp_file_def Let_def)

section \<open>The credential\<close>

text \<open>
  Claim C4. A credential built from a server and a database alone is in integrated
  mode: its \<open>with_krb_auth\<close> is \<open>True\<close>. A credential built with a user name and a
  password as well, both non-empty, is in password mode: its \<open>with_krb_auth\<close> is \<open>False\<close>.
\<close>

theorem SqlCreds_auth_mode:
  "truthy server \<Longrightarrow> truthy database \<Longrightarrow>
   (\<exists>self lg. SqlCreds_init server database None None = Inr (self, lg)
       \<and> getattr self ''with_krb_auth'' = Inr (PBool True)) \<and>
   (truthy username \<and> truthy password \<longrightarrow>
     (\<exists>self lg. SqlCreds_init server database username password = Inr (self, lg)
       \<and> getattr self ''with_krb_auth'' = Inr (PBool False)))"
  by (simp add: SqlCreds_init_def setattr_def getattr_def Let_def)

theorem SqlCreds_auth_mode_witness:
  "(\<exists>self lg. SqlCreds_init (Some ''srv'') (Some ''db'') None None = Inr (self, lg)
       \<and> getattr self ''with_krb_auth'' = Inr (PBool True)) \<and>
   (\<exists>self lg. SqlCreds_init (Some ''srv'') (Some ''db'') (Some ''bob'') (Some ''hunter2'')
         = Inr (self, lg)
       \<and> getattr self ''with_krb_auth'' = Inr (PBool False))"
  using SqlCreds_auth_mode [of "Some ''srv''" "Some ''db''" "Some ''bob''" "Some ''hunter2''"]
  by simp

text \<open>
  Claim C10. When exactly one of user name and password is given (the other is
  \<open>None\<close> or empty), the credential is built in integrated mode and the value given
  is dropped: the object has neither a \<open>username\<close> nor a \<open>password\<close> attribute.
\<close>

theorem SqlCreds_one_of_two_discarded:
  "truthy server \<Longrightarrow> truthy database \<Longrightarrow> truthy username \<noteq> truthy password \<Longrightarrow>
   \<exists>self lg. SqlCreds_init server database username password = Inr (self, lg)
     \<and> getattr self ''with_krb_auth'' = Inr (PBool True)
     \<and> \<not> hasattr self ''username'' \<and> \<not> hasattr self ''password''"
  by (auto simp add: SqlCreds_init_def setattr_def getattr_def hasattr_def Let_def)

theorem SqlCreds_one_of_two_discarded_witness:
  "(\<exists>self lg. SqlCreds_init (Some ''srv'') (Some ''db'') (Some ''bob'') None = Inr (self, lg)
     \<and> getattr self ''with_krb_auth'' = Inr (PBool True)
     \<and> \<not> hasattr self ''username'' \<and> \<not> hasattr self ''password'') \<and>
   (\<exists>self lg. SqlCreds_init (Some ''srv'') (Some ''db'') (Some []) (Some ''hunter2'') = Inr (self, lg)
     \<and> getattr self ''with_krb_auth'' = Inr (PBool True)
     \<and> \<not> hasattr self ''username'' \<and> \<not> hasattr self ''password'')"
  using SqlCreds_one_of_two_discarded [of "Some ''srv''" "Some ''db''" "Some ''bob''" None]
    SqlCreds_one_of_two_discarded [of "Some ''srv''" "Some ''db''" "Some []" "Some ''hunter2''"]
  by simp

text \<open>
  Claim C5. As stated, that the string form of a credential never holds the password
  as a substring, the claim fails: the form always holds the names of the fields, the
  marker and the other values, and a password may occur among them. Here the
  password equals the user name.
\<close>

theorem SqlCreds_repr_password_substring:
  "SqlCreds_init (Some ''srv'') (Some ''db'') (Some ''admin'') (Some ''admin'') =
     Inr ([(''server'', PStr ''srv''), (''database'', PStr ''db''),
           (''username'', PStr ''admin''), (''password'', PStr ''admin''),
           (''with_krb_auth'', PBool False)],
          (''INFO'', ''Created creds:'' @ [CHR 0x09] @
             ''SqlCreds(server='srv', database='db', username='admin', with_krb_auth=False, password=[REDACTED])''))
   \<and> SqlCreds_repr [(''server'', PStr ''srv''), (''database'', PStr ''db''),
           (''username'', PStr ''admin''), (''password'', PStr ''admin''),
           (''with_krb_auth'', PBool False)]
       = ''SqlCreds(server='srv', database='db', username='admin', with_krb_auth=False, password=[REDACTED])''
   \<and> str_contains ''admin''
        ''SqlCreds(server='srv', database='db', username='admin', with_krb_auth=False, password=[REDACTED])''"
  by code_simp

text \<open>
  Claim C5, amended. The string form of a credential does not depend on the value of
  the password. In password mode it is the server, the database and the user name,
  each as \<open>key=repr(value)\<close>, then \<open>with_krb_auth=False\<close> and the fixed text
  \<open>password=[REDACTED]\<close>; in integrated mode it is the server, the database and
  \<open>with_krb_auth=True\<close>. The record logged at construction is that string form.
  Two credentials that differ only in the password, both given or both not, have the
  same string form and the same log record.
\<close>

theorem SqlCreds_repr_redacts:
  assumes "SqlCreds_init server database username password = Inr (self, lg)"
  shows "SqlCreds_repr self =
      (if truthy username \<and> truthy password
       then ''SqlCreds(server='' @ str_repr (the server) @ '', database=''
              @ str_repr (the database) @ '', username='' @ str_repr (the username)
              @ '', with_krb_auth=False, password=[REDACTED])''
       else ''SqlCreds(server='' @ str_repr (the server) @ '', database=''
              @ str_repr (the database) @ '', with_krb_auth=True)'')
     \<and> snd lg = ''Created creds:'' @ [CHR 0x09] @ SqlCreds_repr self
     \<and> (\<forall>password' self' lg'.
           truthy password' = truthy password
           \<and> SqlCreds_init server database username password' = Inr (self', lg')
           \<longrightarrow> SqlCreds_repr self' = SqlCreds_repr self \<and> lg' = lg)"
proof -
  note c = SqlCreds_init_cases [OF assms]
  have r: "SqlCreds_repr self =
      (if truthy username \<and> truthy password
       then ''SqlCreds(server='' @ str_repr (the server) @ '', database=''
              @ str_repr (the database) @ '', username='' @ str_repr (the username)
              @ '', with_krb_auth=False, password=[REDACTED])''
       else ''SqlCreds(server='' @ str_repr (the server) @ '', database=''
              @ str_repr (the database) @ '', with_krb_auth=True)'')"
    using c by (simp add: SqlCreds_repr_password_mode SqlCreds_repr_integrated_mode)
  have l: "snd lg = ''Created creds:'' @ [CHR 0x09] @ SqlCreds_repr self"
    using c by simp
  have "SqlCreds_repr self' = SqlCreds_repr self \<and> lg' = lg"
    if "truthy password' = truthy password"
      and "SqlCreds_init server database username password' = Inr (self', lg')"
    for password' self' lg'
  proof -
    note c' = SqlCreds_init_cases [OF that(2)]
    have "SqlCreds_repr self' = SqlCreds_repr self"
      using c c' that(1) by (simp add: SqlCreds_repr_password_mode SqlCreds_repr_integrated_mode)
    then show ?thesis using c c' by simp
  qed
  with r l show ?thesis by blast
qed

theorem SqlCreds_repr_redacts_witness:
  "SqlCreds_repr [(''server'', PStr ''srv''), (''database'', PStr ''db''),
                  (''username'', PStr ''admin''), (''password'', PStr ''hunter2''),
                  (''with_krb_auth'', PBool False)]
    = ''SqlCreds(server='' @ str_repr ''srv'' @ '', database='' @ str_repr ''db'' @ '', username=''
         @ str_repr ''admin'' @ '', with_krb_auth=False, password=[REDACTED])''"
proof -
  have "SqlCreds_init (Some ''srv'') (Some ''db'') (Some ''admin'') (Some ''hunter2'') =
     Inr ([(''server'', PStr ''srv''), (''database'', PStr ''db''),
           (''username'', PStr ''admin''), (''password'', PStr ''hunter2''),
           (''with_krb_auth'', PBool False)],
          (''INFO'', ''Created creds:'' @ [CHR 0x09] @ SqlCreds_repr
             [(''server'', PStr ''srv''), (''database'', PStr ''db''),
              (''username'', PStr ''admin''), (''password'', PStr ''hunter2''),
              (''with_krb_auth'', PBool False)]))"
    by (simp add: SqlCreds_init_def setattr_def Let_def)
  from SqlCreds_repr_redacts [OF this] show ?thesis by simp
qed

section \<open>Validation\<close>

text \<open>
  Claim C3. A call of \<open>to_sql\<close> whose \<open>sql_type\<close> is not one of table and view, or whose
  \<open>if_exists\<close> is not one of fail, replace and append, raises the assertion error of the
  validation step, and the world is the one the call started in: no scratch file was
  created or written, nothing was logged and no collaborator was called.
\<close>

theorem to_sql_validation:
  "sql_type \<notin> set SQL_TYPES \<or> if_exists \<notin> set IF_EXISTS_OPTIONS \<Longrightarrow>
   to_sql ext df table_name creds sql_type schema index if_exists batch_size debug w
     = (Inl (AssertionError []), w)
   \<and> ValidationError (AssertionError [])"
  by (auto simp: to_sql_def lift_def)

theorem to_sql_validation_witness:
  "to_sql (sample_collab ''|'' xy_preview (bcp_ok [])) people ''t'' password_creds ''function''
      ''dbo'' True ''fail'' None False empty_world = (Inl (AssertionError []), empty_world) \<and>
   to_sql (sample_collab ''|'' xy_preview (bcp_ok [])) people ''t'' password_creds ''table''
      ''dbo'' True ''merge'' None False empty_world = (Inl (AssertionError []), empty_world)"
  using to_sql_validation [of "''function''" "''fail''"] to_sql_validation [of "''table''" "''merge''"]
  by (simp add: SQL_TYPES_def TABLE_def VIEW_def IF_EXISTS_OPTIONS_def)

text \<open>
  Claim C7. A call of \<open>read_sql\<close> whose target name holds the character \<open>;\<close> raises a
  validation error and leaves the world as it was, so no connection was opened. When
  the object kind and the driver version are valid, the error is the \<open>ValueError\<close>
  about the separator.
\<close>

theorem read_sql_rejects_separator:
  "CHR '';'' \<in> set table_name \<Longrightarrow>
   \<exists>e. read_sql ext table_name creds sql_type schema mssql_odbc_driver_version batch_size w
          = (Inl e, w)
      \<and> ValidationError e
      \<and> (sql_type \<in> set SQL_TYPES \<and> mssql_odbc_driver_version \<in> {13, 17}
           \<longrightarrow> e = ValueError separator_message)"
  by (auto simp: read_sql_def lift_def str_contains_char)

theorem read_sql_rejects_separator_witness:
  "read_sql (sample_collab '','' xy_preview (bcp_ok [])) ''a;b'' password_creds ''table'' ''dbo''
      17 (Some 10000) empty_world = (Inl (ValueError separator_message), empty_world)"
  using read_sql_rejects_separator [of "''a;b''" "sample_collab '','' xy_preview (bcp_ok [])"
      password_creds "''table''" "''dbo''" 17 "Some 10000" empty_world]
  by (auto simp: SQL_TYPES_def TABLE_def VIEW_def)

section \<open>The write path\<close>

text \<open>
  Claim C6. With \<open>if_exists = "fail"\<close> the \<open>try\<close> block raises \<open>NotImplementedError\<close>
  at once and changes nothing. So a call of \<open>to_sql\<close> with this policy never
  succeeds, it starts neither \<open>sqlcmd\<close> nor the bulk copy (the only call it can have
  made is \<open>df.to_csv\<close>), and whenever the object kind is valid and both scratch files
  were written the error the caller sees is \<open>NotImplementedError\<close>.
\<close>

theorem to_sql_fail_not_implemented:
  "to_sql_try ext df table_name creds sql_type schema ''fail'' batch_size p q w
      = (Inl NotImplementedError, w)
   \<and> isl (fst (to_sql ext df table_name creds sql_type schema index ''fail'' batch_size debug w))
   \<and> calls (snd (to_sql ext df table_name creds sql_type schema index ''fail'' batch_size debug w))
        \<in> {calls w, calls w @ [ToCsv (temp_name (files w)) (to_sql_csv_args ext)]}
   \<and> (sql_type \<in> set SQL_TYPES
        \<and> \<not> isl (to_csv_result ext df (to_sql_csv_args ext))
        \<and> \<not> isl (build_format_file ext df)
      \<longrightarrow> fst (to_sql ext df table_name creds sql_type schema index ''fail'' batch_size debug w)
            = Inl NotImplementedError)"
proof (cases "sql_type \<in> set SQL_TYPES")
  case False
  then show ?thesis by (simp add: to_sql_def lift_def to_sql_try_fail)
next
  case True
  note st = True
  have ie: "''fail'' \<in> set IF_EXISTS_OPTIONS" by (simp add: IF_EXISTS_OPTIONS_def)
  show ?thesis
  proof (cases "to_csv_result ext df (to_sql_csv_args ext)")
    case (Inl e)
    then show ?thesis by (simp add: to_sql_early(1) [OF st ie] to_sql_try_fail)
  next
    case (Inr csv_txt)
    note csv = Inr
    show ?thesis
    proof (cases "build_format_file ext df")
      case (Inl e)
      then show ?thesis by (simp add: to_sql_early(2) [OF st ie csv] to_sql_try_fail)
    next
      case (Inr ftxt)
      note fmt = Inr
      have "fst (to_sql ext df table_name creds sql_type schema index ''fail'' batch_size debug w)
              = Inl NotImplementedError"
        by (rule to_sql_after_prepare [OF st ie csv fmt]) (simp add: to_sql_try_fail)
      moreover have "calls (snd (to_sql ext df table_name creds sql_type schema index ''fail''
              batch_size debug w)) = calls w @ [ToCsv (temp_name (files w)) (to_sql_csv_args ext)]"
        by (simp add: to_sql_unfold [OF st ie csv fmt] Let_def try_finally_snd
            to_sql_finally_calls to_sql_try_fail)
      ultimately show ?thesis by (simp add: to_sql_try_fail)
    qed
  qed
qed

theorem to_sql_fail_not_implemented_witness:
  "fst (to_sql (sample_collab ''|'' xy_preview (bcp_ok [])) people ''t'' password_creds ''table''
          ''dbo'' True ''fail'' None False empty_world) = Inl NotImplementedError"
  using to_sql_fail_not_implemented [where ext = "sample_collab ''|'' xy_preview (bcp_ok [])"
      and df = people and table_name = "''t''" and creds = password_creds
      and sql_type = "''table''" and schema = "''dbo''" and index = True and batch_size = None
      and debug = False and w = empty_world]
  by (simp add: SQL_TYPES_def TABLE_def sample_collab_def sample_to_csv_def sample_format_file_def
      people_def)

text \<open>
  Claim C1. The \<open>try\<close> block of \<open>to_sql\<close> starts after both scratch files are
  written. When \<open>df.to_csv\<close> has written the flat file and \<open>build_format_file\<close> then
  raises, the error reaches the caller without the \<open>finally\<close> block having run:
  with \<open>debug\<close> off the flat file is still there with its contents, and so is the
  empty format file.
\<close>

theorem to_sql_leaves_scratch_files:
  assumes "sql_type \<in> set SQL_TYPES" and "if_exists \<in> set IF_EXISTS_OPTIONS"
    and "to_csv_result ext df (to_sql_csv_args ext) = Inr txt"
    and "build_format_file ext df = Inl e"
  shows "fst (to_sql ext df table_name creds sql_type schema index if_exists batch_size False w) = Inl e
    \<and> map_of (files (snd (to_sql ext df table_name creds sql_type schema index if_exists
                            batch_size False w))) (temp_name (files w)) = Some txt
    \<and> map_of (files (snd (to_sql ext df table_name creds sql_type schema index if_exists
                            batch_size False w)))
         (temp_name (AList.update (temp_name (files w)) txt (files w))) = Some []"
  by (simp add: to_sql_early(2) [OF assms] update_conv' temp_name_update_neq [symmetric])

theorem to_sql_leaves_scratch_files_witness:
  "fst (to_sql (sample_collab ''|'' xy_preview (bcp_ok [])) no_columns ''t'' password_creds ''table''
          ''dbo'' True ''append'' None False empty_world) = Inl (ExternalError ''SchemaError'')
   \<and> files (snd (to_sql (sample_collab ''|'' xy_preview (bcp_ok [])) no_columns ''t'' password_creds
          ''table'' ''dbo'' True ''append'' None False empty_world))
        = [(''/tmp/x'', []), (''/tmp/xxxxxxx'', [])]"
proof -
  let ?ext = "sample_collab ''|'' xy_preview (bcp_ok [])"
  have a: "''table'' \<in> set SQL_TYPES" by (simp add: SQL_TYPES_def TABLE_def)
  have b: "''append'' \<in> set IF_EXISTS_OPTIONS" by (simp add: IF_EXISTS_OPTIONS_def)
  have c: "to_csv_result ?ext no_columns (to_sql_csv_args ?ext) = Inr []"
    by (simp add: sample_collab_def sample_to_csv_def to_sql_csv_args_def no_columns_def)
  have d: "build_format_file ?ext no_columns = Inl (ExternalError ''SchemaError'')"
    by (simp add: sample_collab_def sample_format_file_def no_columns_def)
  have "fst (to_sql ?ext no_columns ''t'' password_creds ''table''
          ''dbo'' True ''append'' None False empty_world) = Inl (ExternalError ''SchemaError'')"
    using to_sql_leaves_scratch_files [OF a b c d] by simp
  moreover have "files (snd (to_sql ?ext no_columns ''t'' password_creds
          ''table'' ''dbo'' True ''append'' None False empty_world))
        = [(''/tmp/x'', []), (''/tmp/xxxxxxx'', [])]"
    by (simp add: to_sql_early(2) [OF a b c d] empty_world_def temp_name_def)
  ultimately show ?thesis by simp
qed

text \<open>
  Claim C2. \<open>to_sql\<close> does not use its parameter \<open>index\<close>: the call with \<open>index\<close> true
  is the call with \<open>index\<close> false, and \<open>df.to_csv\<close> is always given \<open>index=False\<close>.
  For the two-row dataset \<open>people\<close> and \<open>index\<close> true the flat file is
  \<open>1|a\<close>, \<open>2|b\<close>, with no index column; written with the index it would start
  each row with the row label.
\<close>

theorem to_sql_ignores_index:
  "to_sql ext df table_name creds sql_type schema True if_exists batch_size debug w
     = to_sql ext df table_name creds sql_type schema False if_exists batch_size debug w
   \<and> csv_index (to_sql_csv_args ext) = False
   \<and> files (snd (to_sql (sample_collab ''|'' xy_preview (bcp_ok [])) people ''t'' password_creds
          ''table'' ''dbo'' True ''append'' None True empty_world))
       = [(''/tmp/x'', ''1|a\<newline>2|b\<newline>''), (''/tmp/xxxxxxx'', ''id\<newline>name\<newline>'')]
   \<and> sample_to_csv people ((to_sql_csv_args (sample_collab ''|'' xy_preview (bcp_ok [])))
          \<lparr>csv_index := True\<rparr>) = Inr ''0|1|a\<newline>1|2|b\<newline>''"
proof -
  have "to_sql ext df table_name creds sql_type schema True if_exists batch_size debug w
     = to_sql ext df table_name creds sql_type schema False if_exists batch_size debug w"
    by (simp add: to_sql_def)
  moreover have "csv_index (to_sql_csv_args ext) = False"
    by (simp add: to_sql_csv_args_def)
  moreover have "files (snd (to_sql (sample_collab ''|'' xy_preview (bcp_ok [])) people ''t''
          password_creds ''table'' ''dbo'' True ''append'' None True empty_world))
       = [(''/tmp/x'', ''1|a\<newline>2|b\<newline>''), (''/tmp/xxxxxxx'', ''id\<newline>name\<newline>'')]"
    by code_simp
  moreover have "sample_to_csv people ((to_sql_csv_args (sample_collab ''|'' xy_preview (bcp_ok [])))
          \<lparr>csv_index := True\<rparr>) = Inr ''0|1|a\<newline>1|2|b\<newline>''"
    by code_simp
  ultimately show ?thesis by blast
qed

section \<open>The read path\<close>

text \<open>
  What a successful \<open>read_sql\<close> returns. When the arguments are valid, the credential
  has its four attributes, the connection opens, the preview query returns \<open>preview\<close>
  and the bulk copy ends with status 0, the result is what \<open>pd.read_csv\<close> makes of the
  text the bulk copy wrote, given the column names of \<open>preview\<close> in order, no header
  row and no index column; the scratch file is removed. No separator is passed, so
  the text is split at commas: the text \<open>1,2\<close>, \<open>3,4\<close> gives the rows \<open>(1, 2)\<close> and
  \<open>(3, 4)\<close>.
\<close>

lemma read_sql_parses_flat_file:
  assumes "sql_type \<in> set SQL_TYPES" and "ver \<in> {13, 17}" and "CHR '';'' \<notin> set table_name"
    and "getattr creds ''server'' = Inr server" and "getattr creds ''database'' = Inr database"
    and "getattr creds ''username'' = Inr username" and "getattr creds ''password'' = Inr password"
    and "connect_result ext (connection_string ver server database username password) = None"
    and "query_result ext (preview_query sql_type table_name)
           (connection_string ver server database username password) = Inr preview"
    and "bcp_result ext
           (read_sql_bcp_args table_name (temp_name (files w)) creds sql_type schema batch_size)
           (AList.update (temp_name (files w)) [] (files w)) = out"
    and "bcp_exit_status out = 0"
  shows "fst (read_sql ext table_name creds sql_type schema ver batch_size w) =
           read_csv_result ext (bcp_exported out)
             \<lparr>rc_sep = '','', rc_header = None, rc_names = map fst (df_columns preview),
              rc_index_col = IndexColFalse\<rparr>
         \<and> files (snd (read_sql ext table_name creds sql_type schema ver batch_size w)) = files w"
  using assms(10,11)
  by (simp add: read_sql_unfold [OF assms(1-9)] Let_def try_finally_def and_then_def bcp_def
      read_sql_bcp_args_def read_sql_csv_args_def OUT_def pd_read_csv_def os_remove_def
      update_conv' delete_update_fresh temp_name_None split: sum.splits prod.splits)

lemma read_sql_comma_delimited:
  "fst (read_sql (sample_collab '','' xy_preview (bcp_ok ''1,2\<newline>3,4\<newline>'')) ''t'' password_creds
          ''table'' ''dbo'' 17 (Some 10000) empty_world)
     = Inr \<lparr>df_index = [CInt 0, CInt 1],
            df_columns = [(''x'', [CInt 1, CInt 3]), (''y'', [CInt 2, CInt 4])]\<rparr>"
proof -
  let ?ext = "sample_collab '','' xy_preview (bcp_ok ''1,2\<newline>3,4\<newline>'')"
  have a: "''table'' \<in> set SQL_TYPES" by (simp add: SQL_TYPES_def TABLE_def)
  have b: "(17::int) \<in> {13, 17}" by simp
  have c: "CHR '';'' \<notin> set ''t''" by simp
  have g: "getattr password_creds ''server'' = Inr (PStr ''srv'')"
    "getattr password_creds ''database'' = Inr (PStr ''db'')"
    "getattr password_creds ''username'' = Inr (PStr ''bob'')"
    "getattr password_creds ''password'' = Inr (PStr ''hunter2'')"
    by (simp_all add: getattr_def password_creds_def)
  have d: "connect_result ?ext (connection_string 17 (PStr ''srv'') (PStr ''db'') (PStr ''bob'')
             (PStr ''hunter2'')) = None"
    by (simp add: sample_collab_def)
  have e: "query_result ?ext (preview_query ''table'' ''t'')
             (connection_string 17 (PStr ''srv'') (PStr ''db'') (PStr ''bob'') (PStr ''hunter2''))
           = Inr xy_preview"
    by (simp add: sample_collab_def)
  have f: "bcp_result ?ext
           (read_sql_bcp_args ''t'' (temp_name (files empty_world)) password_creds ''table'' ''dbo''
              (Some 10000))
           (AList.update (temp_name (files empty_world)) [] (files empty_world))
         = bcp_ok ''1,2\<newline>3,4\<newline>''"
    by (simp add: sample_collab_def)
  have h: "bcp_exit_status (bcp_ok ''1,2\<newline>3,4\<newline>'') = 0" by (simp add: bcp_ok_def)
  have r: "read_csv_result ?ext (bcp_exported (bcp_ok ''1,2\<newline>3,4\<newline>''))
             \<lparr>rc_sep = '','', rc_header = None, rc_names = map fst (df_columns xy_preview),
              rc_index_col = IndexColFalse\<rparr>
     = Inr \<lparr>df_index = [CInt 0, CInt 1],
            df_columns = [(''x'', [CInt 1, CInt 3]), (''y'', [CInt 2, CInt 4])]\<rparr>"
    by code_simp
  show ?thesis
    using read_sql_parses_flat_file [OF a b c g d e f h] r by simp
qed

lemma collaborators_ignore_delimiter:
  "pyodbc_connect (ext\<lparr>DELIMITER := d\<rparr>) = pyodbc_connect ext"
  "pd_read_sql_query (ext\<lparr>DELIMITER := d\<rparr>) = pd_read_sql_query ext"
  "bcp (ext\<lparr>DELIMITER := d\<rparr>) = bcp ext"
  "pd_read_csv (ext\<lparr>DELIMITER := d\<rparr>) = pd_read_csv ext"
  by (simp_all add: fun_eq_iff pyodbc_connect_def pd_read_sql_query_def bcp_def pd_read_csv_def
      Let_def split: option.splits)

text \<open>
  Claim C8. \<open>read_sql\<close> parses the flat file with the discovered column names, no
  header row and no index column, but it does not read the file with the shared
  field delimiter: the write path gives \<open>DELIMITER\<close> to \<open>df.to_csv\<close>, the read path
  gives \<open>pd.read_csv\<close> no separator, and \<open>read_sql\<close> is the same function whatever
  \<open>DELIMITER\<close> is. With the delimiter \<open>|\<close>, the columns \<open>x\<close>, \<open>y\<close> and the text \<open>1|2\<close>,
  \<open>3|4\<close>, the result is not the two columns of the claim: each line is read as one
  field, \<open>x\<close> holds the two texts and \<open>y\<close> is empty.
\<close>

theorem read_sql_ignores_delimiter:
  "read_sql (ext\<lparr>DELIMITER := d\<rparr>) table_name creds sql_type schema ver batch_size w
     = read_sql ext table_name creds sql_type schema ver batch_size w
   \<and> csv_sep (to_sql_csv_args ext) = DELIMITER ext
   \<and> rc_sep (read_sql_csv_args cols) = '',''
   \<and> fst (read_sql (sample_collab ''|'' xy_preview (bcp_ok ''1|2\<newline>3|4\<newline>'')) ''t''
            password_creds ''table'' ''dbo'' 17 (Some 10000) empty_world)
       = Inr \<lparr>df_index = [CInt 0, CInt 1],
              df_columns = [(''x'', [CStr ''1|2'', CStr ''3|4'']), (''y'', [CNaN, CNaN])]\<rparr>"
proof -
  have "read_sql (ext\<lparr>DELIMITER := d\<rparr>) table_name creds sql_type schema ver batch_size w
     = read_sql ext table_name creds sql_type schema ver batch_size w"
    by (simp add: read_sql_def collaborators_ignore_delimiter)
  moreover have "csv_sep (to_sql_csv_args ext) = DELIMITER ext"
    by (simp add: to_sql_csv_args_def)
  moreover have "rc_sep (read_sql_csv_args cols) = '',''"
    by (simp add: read_sql_csv_args_def)
  moreover have "fst (read_sql (sample_collab ''|'' xy_preview (bcp_ok ''1|2\<newline>3|4\<newline>'')) ''t''
            password_creds ''table'' ''dbo'' 17 (Some 10000) empty_world)
       = Inr \<lparr>df_index = [CInt 0, CInt 1],
              df_columns = [(''x'', [CStr ''1|2'', CStr ''3|4'']), (''y'', [CNaN, CNaN])]\<rparr>"
    by code_simp
  ultimately show ?thesis by blast
qed

section \<open>Integrated authentication\<close>

text \<open>
  Claim C9. As stated, that every call of \<open>read_sql\<close> with a credential in integrated
  mode fails with an attribute error, the claim fails: the arguments are validated
  before the credential is read, so a target name with a \<open>;\<close> gives the \<open>ValueError\<close>
  of the validation.
\<close>

theorem integrated_creds_separator_first:
  "SqlCreds_init (Some ''srv'') (Some ''db'') None None =
        Inr (integrated_creds, (''INFO'', ''Created creds:'' @ [CHR 0x09]
               @ ''SqlCreds(server='srv', database='db', with_krb_auth=True)''))
   \<and> getattr integrated_creds ''with_krb_auth'' = Inr (PBool True)
   \<and> read_sql (sample_collab '','' xy_preview (bcp_ok [])) ''a;b'' integrated_creds ''table'' ''dbo''
         17 (Some 10000) empty_world = (Inl (ValueError separator_message), empty_world)"
  by code_simp

text \<open>
  Claim C9, amended. With a credential in integrated mode, \<open>read_sql\<close> and \<open>to_sql\<close>
  with \<open>if_exists = "replace"\<close> never succeed and never reach the database:
  \<open>read_sql\<close> leaves the world unchanged, and \<open>to_sql\<close> calls nothing but
  \<open>df.to_csv\<close>. Both read the attribute \<open>username\<close> whatever the mode, and it is not
  set. The error is \<open>AttributeError\<close> for \<open>username\<close> whenever the steps before that
  read succeed: for \<open>read_sql\<close> the validation of the object kind, the driver version
  and the target name; for \<open>to_sql\<close> the validation, the writing of the two scratch
  files and the generation of the CREATE statement.
\<close>

theorem integrated_creds_never_transfer:
  assumes "SqlCreds_init server database username password = Inr (creds, lg)"
    and "\<not> (truthy username \<and> truthy password)"
  shows
   "isl (fst (read_sql ext table_name creds sql_type schema ver batch_size w))
    \<and> snd (read_sql ext table_name creds sql_type schema ver batch_size w) = w
    \<and> (sql_type \<in> set SQL_TYPES \<and> ver \<in> {13, 17} \<and> CHR '';'' \<notin> set table_name
        \<longrightarrow> fst (read_sql ext table_name creds sql_type schema ver batch_size w)
              = Inl (AttributeError ''username''))
    \<and> isl (fst (to_sql ext df table_name creds sql_type schema index ''replace'' batch_size debug w))
    \<and> calls (snd (to_sql ext df table_name creds sql_type schema index ''replace'' batch_size
                     debug w))
         \<in> {calls w, calls w @ [ToCsv (temp_name (files w)) (to_sql_csv_args ext)]}
    \<and> (sql_type \<in> set SQL_TYPES
          \<and> \<not> isl (to_csv_result ext df (to_sql_csv_args ext))
          \<and> \<not> isl (build_format_file ext df)
          \<and> \<not> isl (get_sql_create_statement ext df table_name schema)
        \<longrightarrow> fst (to_sql ext df table_name creds sql_type schema index ''replace'' batch_size
                   debug w) = Inl (AttributeError ''username''))"
proof -
  note g = integrated_getattr [OF assms]
  have "fst (to_sql ext df table_name creds sql_type schema index ''replace'' batch_size
                   debug w) = Inl (AttributeError ''username'')"
    if st: "sql_type \<in> set SQL_TYPES"
      and ok: "\<not> isl (to_csv_result ext df (to_sql_csv_args ext))"
        "\<not> isl (build_format_file ext df)"
        "\<not> isl (get_sql_create_statement ext df table_name schema)"
  proof -
    from ok obtain a b c where "to_csv_result ext df (to_sql_csv_args ext) = Inr a"
      and "build_format_file ext df = Inr b"
      and "get_sql_create_statement ext df table_name schema = Inr c"
      by (auto simp: isl_def) (metis sum.exhaust)
    then show ?thesis
      using to_sql_replace_attribute_error [OF g st] by simp
  qed
  then show ?thesis
    using read_sql_no_username [OF g(3)] read_sql_attribute_error [OF g]
      to_sql_replace_no_username [OF g(3)]
    by simp
qed

theorem integrated_creds_never_transfer_witness:
  "fst (read_sql (sample_collab '','' xy_preview (bcp_ok [])) ''t'' integrated_creds ''table'' ''dbo''
         17 (Some 10000) empty_world) = Inl (AttributeError ''username'')
   \<and> fst (to_sql (sample_collab '','' xy_preview (bcp_ok [])) people ''t'' integrated_creds ''table''
         ''dbo'' True ''replace'' (Some 10000) False empty_world) = Inl (AttributeError ''username'')"
proof -
  have i: "SqlCreds_init (Some ''srv'') (Some ''db'') None None =
        Inr (integrated_creds, (''INFO'', ''Created creds:'' @ [CHR 0x09]
               @ SqlCreds_repr integrated_creds))"
    by (simp add: SqlCreds_init_def setattr_def Let_def integrated_creds_def)
  have n: "\<not> (truthy None \<and> truthy None)" by simp
  show ?thesis
    using integrated_creds_never_transfer [OF i n, where ext = "sample_collab '','' xy_preview (bcp_ok [])"
        and table_name = "''t''" and sql_type = "''table''" and schema = "''dbo''" and ver = 17
        and batch_size = "Some 10000" and w = empty_world and df = people and index = True
        and debug = False]
    by (simp add: SQL_TYPES_def TABLE_def sample_collab_def sample_to_csv_def
        sample_format_file_def people_def)
qed

end
